theory Spec2Isabelle
  imports Main "HOL-Library.Word"
begin

unbundle bit_operations_syntax

section \<open>Z80 memory models of sjasmplus (sjasm/memory.h)\<close>

text \<open>
  A shallow embedding of the classes \<^verbatim>\<open>MemModel\<close>, \<^verbatim>\<open>PlainMemModel\<close>,
  \<^verbatim>\<open>ZXMemModel\<close> and \<^verbatim>\<open>MemoryManager\<close>. Methods take the object and return the
  updated object. An access outside a container (undefined behaviour in C++), a null
  pointer dereference and a call of \<^verbatim>\<open>Fatal\<close> (which ends the run) are values of the
  type \<open>fault\<close>; a method that can reach one of them returns \<open>fault + 'a\<close>.
\<close>

subsection \<open>Machine types and faults\<close>

type_synonym u8 = "8 word"
type_synonym u16 = "16 word"

datatype fault = Fatal string | OutOfBounds | NullPointer

text \<open>\<^verbatim>\<open>xs[i]\<close> read and written, on an array, a bitset or a vector: the index is
  the integer the C++ expression computes; outside the container the access is a fault.\<close>

definition at_index :: "'a list \<Rightarrow> int \<Rightarrow> fault + 'a" where
  "at_index xs i = (if 0 \<le> i \<and> i < int (length xs) then Inr (xs ! nat i) else Inl OutOfBounds)"

definition set_index :: "'a list \<Rightarrow> int \<Rightarrow> 'a \<Rightarrow> fault + 'a list" where
  "set_index xs i v = (if 0 \<le> i \<and> i < int (length xs) then Inr (xs[nat i := v]) else Inl OutOfBounds)"



subsection \<open>The loops shared by both models\<close>

text \<open>
  \<^verbatim>\<open>for (size_t i = 0; i < Memory.size(); i++) { if (!MemUsage[i]) Memory[i] = 0; }\<close>
  The body of \<^verbatim>\<open>clearEphemerals\<close> is the same text in both classes.
\<close>

function clearEphemerals_loop :: "bool list \<Rightarrow> nat \<Rightarrow> u8 list \<Rightarrow> fault + u8 list" where
  "clearEphemerals_loop usage i mem =
     (if i < length mem then
        (case at_index usage (int i) of
           Inl f \<Rightarrow> Inl f
         | Inr used \<Rightarrow>
             if \<not> used then
               (case set_index mem (int i) 0 of
                  Inl f \<Rightarrow> Inl f
                | Inr mem' \<Rightarrow> clearEphemerals_loop usage (Suc i) mem')
             else clearEphemerals_loop usage (Suc i) mem)
      else Inr mem)"
  by pat_completeness auto
termination
  by (relation "measure (\<lambda>(usage, i, mem). length mem - i)")
     (auto simp: set_index_def split: if_splits)

declare clearEphemerals_loop.simps [simp del]

text \<open>
  \<^verbatim>\<open>for (int i = 0; i < Size; i++) { *(Dest + i) = <byte at Addr + i>; }\<close>
  The bytes stored at \<^verbatim>\<open>Dest[0..Size)\<close> are returned as a list; \<open>rd i\<close> is
  the right-hand side of the assignment at index \<open>i\<close>.
\<close>

function getBytes_loop :: "(nat \<Rightarrow> fault + u8) \<Rightarrow> nat \<Rightarrow> nat \<Rightarrow> u8 list \<Rightarrow> fault + u8 list" where
  "getBytes_loop rd i Size Dest =
     (if i < Size then
        (case rd i of
           Inl f \<Rightarrow> Inl f
         | Inr b \<Rightarrow> getBytes_loop rd (Suc i) Size (Dest @ [b]))
      else Inr Dest)"
  by pat_completeness auto
termination
  by (relation "measure (\<lambda>(rd, i, Size, Dest). Size - i)") auto

declare getBytes_loop.simps [simp del]

subsection \<open>class MemModel: the members of the base class\<close>

record MemModelBase =
  Name :: string
  ZXSysVarsInitialized :: bool

subsection \<open>class PlainMemModel: plain 64K without paging\<close>

text \<open>
  \<^verbatim>\<open>std::array<uint8_t, 0x10000> Memory; std::bitset<0x10000> MemUsage;\<close>
  Both containers have their size in their type; \<open>plain_wf\<close> states it for the lists.
\<close>

record PlainMemModel = MemModelBase +
  Memory :: "u8 list"
  MemUsage :: "bool list"

definition plain_wf :: "PlainMemModel \<Rightarrow> bool" where
  "plain_wf s = (length (Memory s) = 0x10000 \<and> length (MemUsage s) = 0x10000)"

definition PlainMemModel_clear :: "PlainMemModel \<Rightarrow> PlainMemModel" where
  "PlainMemModel_clear s =
     s\<lparr>Memory := replicate (length (Memory s)) 0,
       MemUsage := replicate (length (MemUsage s)) False\<rparr>"

text \<open>The constructor: \<^verbatim>\<open>PlainMemModel() : MemModel{"PLAIN"s} { clear(); }\<close>. The
  contents of the two containers before \<^verbatim>\<open>clear()\<close> do not matter.\<close>

definition PlainMemModel_new :: PlainMemModel where
  "PlainMemModel_new =
     PlainMemModel_clear
       \<lparr>Name = ''PLAIN'', ZXSysVarsInitialized = False,
        Memory = replicate 0x10000 0, MemUsage = replicate 0x10000 False\<rparr>"

definition PlainMemModel_isPagedMemory :: "PlainMemModel \<Rightarrow> bool" where
  "PlainMemModel_isPagedMemory s = False"

definition PlainMemModel_getNumMemPages :: "PlainMemModel \<Rightarrow> int" where
  "PlainMemModel_getNumMemPages s = 0"

definition PlainMemModel_getDefaultSlot :: "PlainMemModel \<Rightarrow> int" where
  "PlainMemModel_getDefaultSlot s = 0"

definition PlainMemModel_getPageNumInSlot :: "PlainMemModel \<Rightarrow> int \<Rightarrow> int" where
  "PlainMemModel_getPageNumInSlot s Slot = 0"

text \<open>Both forms of \<^verbatim>\<open>setPage\<close> and \<^verbatim>\<open>validateSlot\<close>: the returned
  \<^verbatim>\<open>boost::optional<std::string>\<close> and the object after the call.\<close>

definition PlainMemModel_setPage :: "PlainMemModel \<Rightarrow> int \<Rightarrow> int \<Rightarrow> string option \<times> PlainMemModel" where
  "PlainMemModel_setPage s Slot Page =
     (Some ''The PLAIN memory model does not support page switching'', s)"

definition PlainMemModel_setPage_addr :: "PlainMemModel \<Rightarrow> u16 \<Rightarrow> int \<Rightarrow> string option \<times> PlainMemModel" where
  "PlainMemModel_setPage_addr s currentAddr Page = PlainMemModel_setPage s 0 0"

definition PlainMemModel_validateSlot :: "PlainMemModel \<Rightarrow> int \<Rightarrow> string option \<times> PlainMemModel" where
  "PlainMemModel_validateSlot s Slot = PlainMemModel_setPage s 0 0"

definition PlainMemModel_getPageForAddress :: "PlainMemModel \<Rightarrow> u16 \<Rightarrow> int" where
  "PlainMemModel_getPageForAddress s CurrentAddr = 0"

definition PlainMemModel_readByte :: "PlainMemModel \<Rightarrow> u16 \<Rightarrow> fault + u8" where
  "PlainMemModel_readByte s Addr = at_index (Memory s) (uint Addr)"

text \<open>\<^verbatim>\<open>Memory[Addr + i]\<close>: the sum is an \<^verbatim>\<open>int\<close>, not reduced to 16 bits.\<close>

definition PlainMemModel_getBytes :: "PlainMemModel \<Rightarrow> u16 \<Rightarrow> u16 \<Rightarrow> fault + u8 list" where
  "PlainMemModel_getBytes s Addr Size =
     getBytes_loop (\<lambda>i. at_index (Memory s) (uint Addr + int i)) 0 (unat Size) []"

definition PlainMemModel_writeByte :: "PlainMemModel \<Rightarrow> u16 \<Rightarrow> u8 \<Rightarrow> bool \<Rightarrow> fault + PlainMemModel" where
  "PlainMemModel_writeByte s Addr Byte Ephemeral =
     (case set_index (Memory s) (uint Addr) Byte of
        Inl f \<Rightarrow> Inl f
      | Inr mem \<Rightarrow>
          if \<not> Ephemeral then
            (case set_index (MemUsage s) (uint Addr) True of
               Inl f \<Rightarrow> Inl f
             | Inr usage \<Rightarrow> Inr (s\<lparr>Memory := mem, MemUsage := usage\<rparr>))
          else Inr (s\<lparr>Memory := mem\<rparr>))"

definition PlainMemModel_usedAddr :: "PlainMemModel \<Rightarrow> u16 \<Rightarrow> fault + bool" where
  "PlainMemModel_usedAddr s Addr = at_index (MemUsage s) (uint Addr)"

definition PlainMemModel_clearEphemerals :: "PlainMemModel \<Rightarrow> fault + PlainMemModel" where
  "PlainMemModel_clearEphemerals s =
     (case clearEphemerals_loop (MemUsage s) 0 (Memory s) of
        Inl f \<Rightarrow> Inl f
      | Inr mem \<Rightarrow> Inr (s\<lparr>Memory := mem\<rparr>))"

subsection \<open>class ZXMemModel: ZX Spectrum 128 to 1024, four slots of 16K\<close>

definition PageSize :: nat where
  "PageSize = 0x4000"

text \<open>
  \<^verbatim>\<open>int NumPages; int NumSlots = 4; int SlotPages[4] = {0, 5, 2, 7};\<close>
  \<^verbatim>\<open>std::vector<uint8_t> Memory; std::vector<bool> MemUsage;\<close>
  The two vectors are the fields \<open>ZXMemory\<close> and \<open>ZXMemUsage\<close>.
\<close>

record ZXMemModel = MemModelBase +
  NumPages :: int
  NumSlots :: int
  SlotPages :: "int list"
  ZXMemory :: "u8 list"
  ZXMemUsage :: "bool list"

text \<open>The class invariant: the sizes the constructor gives the vectors, the size of the
  array \<^verbatim>\<open>SlotPages\<close>, and every slot mapped to a page of the model.\<close>

definition zx_wf :: "ZXMemModel \<Rightarrow> bool" where
  "zx_wf s =
     (0 \<le> NumPages s \<and> NumSlots s = 4 \<and> length (SlotPages s) = 4 \<and>
      list_all (\<lambda>p. 0 \<le> p \<and> p < NumPages s) (SlotPages s) \<and>
      int (length (ZXMemory s)) = NumPages s * int PageSize \<and>
      length (ZXMemUsage s) = length (ZXMemory s))"

text \<open>Modelled from the spec: the body of the constructor
  \<^verbatim>\<open>ZXMemModel(const std::string &Name, int NPages)\<close> is not in memory.h. The spec gives
  the model a physical buffer of \<open>NumPages * PageSize\<close> bytes and a used-bitmap of the
  same size; the slot mapping is the initialiser of \<^verbatim>\<open>SlotPages\<close> in memory.h.\<close>

definition ZXMemModel_new :: "string \<Rightarrow> int \<Rightarrow> ZXMemModel" where
  "ZXMemModel_new name NPages =
     \<lparr>Name = name, ZXSysVarsInitialized = False,
      NumPages = NPages, NumSlots = 4, SlotPages = [0, 5, 2, 7],
      ZXMemory = replicate (nat NPages * PageSize) 0,
      ZXMemUsage = replicate (nat NPages * PageSize) False\<rparr>"

text \<open>\<^verbatim>\<open>SlotPages[Addr / PageSize] * PageSize + (Addr % PageSize)\<close>. The index of
  \<^verbatim>\<open>SlotPages\<close> is at most 3. The product is computed in \<^verbatim>\<open>size_t\<close> and returned as
  \<^verbatim>\<open>off_t\<close>; for a 32-bit page number that is the integer value.\<close>

definition addrToOffset :: "ZXMemModel \<Rightarrow> u16 \<Rightarrow> int" where
  "addrToOffset s Addr =
     (SlotPages s ! (unat Addr div PageSize)) * int PageSize + int (unat Addr mod PageSize)"

definition ZXMemModel_readByte :: "ZXMemModel \<Rightarrow> u16 \<Rightarrow> fault + u8" where
  "ZXMemModel_readByte s Addr = at_index (ZXMemory s) (addrToOffset s Addr)"

text \<open>\<^verbatim>\<open>readByte(Addr + i)\<close>: the \<^verbatim>\<open>int\<close> sum is converted to the parameter's type
  \<^verbatim>\<open>uint16_t\<close>.\<close>

definition ZXMemModel_getBytes :: "ZXMemModel \<Rightarrow> u16 \<Rightarrow> u16 \<Rightarrow> fault + u8 list" where
  "ZXMemModel_getBytes s Addr Size =
     getBytes_loop (\<lambda>i. ZXMemModel_readByte s (word_of_int (uint Addr + int i))) 0 (unat Size) []"

definition ZXMemModel_clear :: "ZXMemModel \<Rightarrow> ZXMemModel" where
  "ZXMemModel_clear s =
     s\<lparr>ZXMemory := replicate (length (ZXMemory s)) 0,
       ZXMemUsage := replicate (length (ZXMemUsage s)) False\<rparr>"

definition ZXMemModel_writeByte :: "ZXMemModel \<Rightarrow> u16 \<Rightarrow> u8 \<Rightarrow> bool \<Rightarrow> fault + ZXMemModel" where
  "ZXMemModel_writeByte s Addr Byte Ephemeral =
     (let i = addrToOffset s Addr in
      case set_index (ZXMemory s) i Byte of
        Inl f \<Rightarrow> Inl f
      | Inr mem \<Rightarrow>
          if \<not> Ephemeral then
            (case set_index (ZXMemUsage s) i True of
               Inl f \<Rightarrow> Inl f
             | Inr usage \<Rightarrow> Inr (s\<lparr>ZXMemory := mem, ZXMemUsage := usage\<rparr>))
          else Inr (s\<lparr>ZXMemory := mem\<rparr>))"

definition ZXMemModel_usedAddr :: "ZXMemModel \<Rightarrow> u16 \<Rightarrow> fault + bool" where
  "ZXMemModel_usedAddr s Addr = at_index (ZXMemUsage s) (addrToOffset s Addr)"

definition ZXMemModel_clearEphemerals :: "ZXMemModel \<Rightarrow> fault + ZXMemModel" where
  "ZXMemModel_clearEphemerals s =
     (case clearEphemerals_loop (ZXMemUsage s) 0 (ZXMemory s) of
        Inl f \<Rightarrow> Inl f
      | Inr mem \<Rightarrow> Inr (s\<lparr>ZXMemory := mem\<rparr>))"

definition ZXMemModel_isPagedMemory :: "ZXMemModel \<Rightarrow> bool" where
  "ZXMemModel_isPagedMemory s = True"

definition ZXMemModel_getNumMemPages :: "ZXMemModel \<Rightarrow> int" where
  "ZXMemModel_getNumMemPages s = NumPages s"

definition ZXMemModel_getDefaultSlot :: "ZXMemModel \<Rightarrow> int" where
  "ZXMemModel_getDefaultSlot s = 3"

definition ZXMemModel_getPageNumInSlot :: "ZXMemModel \<Rightarrow> int \<Rightarrow> fault + int" where
  "ZXMemModel_getPageNumInSlot s Slot = at_index (SlotPages s) Slot"






text \<open>Modelled from the spec: \<^verbatim>\<open>ZXMemModel::getPageForAddress\<close> is declared in memory.h
  and its body is missing. The spec: the page number currently mapped to the slot of the
  address, the slot being \<open>addr / PageSize\<close>.\<close>

definition ZXMemModel_getPageForAddress :: "ZXMemModel \<Rightarrow> u16 \<Rightarrow> int" where
  "ZXMemModel_getPageForAddress s CurrentAddr = SlotPages s ! (unat CurrentAddr div PageSize)"

text \<open>Modelled from the spec: \<^verbatim>\<open>ZXMemModel::validateSlot\<close> is declared in memory.h and
  its body is missing. The spec: an error message if the slot is out of range, that is
  not in \<open>[0, NumSlots)\<close>, otherwise none. The spec does not give the text of the message:
  it is the parameter \<open>msg\<close>.\<close>

definition ZXMemModel_validateSlot :: "(int \<Rightarrow> string) \<Rightarrow> ZXMemModel \<Rightarrow> int \<Rightarrow> string option \<times> ZXMemModel" where
  "ZXMemModel_validateSlot msg s Slot =
     (if 0 \<le> Slot \<and> Slot < NumSlots s then None else Some (msg Slot), s)"

subsection \<open>Virtual dispatch: a model is one of the two classes\<close>

datatype MemModel = Plain PlainMemModel | ZX ZXMemModel

fun isPagedMemory :: "MemModel \<Rightarrow> bool" where
  "isPagedMemory (Plain s) = PlainMemModel_isPagedMemory s"
| "isPagedMemory (ZX s) = ZXMemModel_isPagedMemory s"

fun getNumMemPages :: "MemModel \<Rightarrow> int" where
  "getNumMemPages (Plain s) = PlainMemModel_getNumMemPages s"
| "getNumMemPages (ZX s) = ZXMemModel_getNumMemPages s"

fun getDefaultSlot :: "MemModel \<Rightarrow> int" where
  "getDefaultSlot (Plain s) = PlainMemModel_getDefaultSlot s"
| "getDefaultSlot (ZX s) = ZXMemModel_getDefaultSlot s"

fun readByte :: "MemModel \<Rightarrow> u16 \<Rightarrow> fault + u8" where
  "readByte (Plain s) Addr = PlainMemModel_readByte s Addr"
| "readByte (ZX s) Addr = ZXMemModel_readByte s Addr"

fun writeByte :: "MemModel \<Rightarrow> u16 \<Rightarrow> u8 \<Rightarrow> bool \<Rightarrow> fault + MemModel" where
  "writeByte (Plain s) Addr Byte Ephemeral = map_sum id Plain (PlainMemModel_writeByte s Addr Byte Ephemeral)"
| "writeByte (ZX s) Addr Byte Ephemeral = map_sum id ZX (ZXMemModel_writeByte s Addr Byte Ephemeral)"

fun usedAddr :: "MemModel \<Rightarrow> u16 \<Rightarrow> fault + bool" where
  "usedAddr (Plain s) Addr = PlainMemModel_usedAddr s Addr"
| "usedAddr (ZX s) Addr = ZXMemModel_usedAddr s Addr"

fun clearEphemerals :: "MemModel \<Rightarrow> fault + MemModel" where
  "clearEphemerals (Plain s) = map_sum id Plain (PlainMemModel_clearEphemerals s)"
| "clearEphemerals (ZX s) = map_sum id ZX (ZXMemModel_clearEphemerals s)"

fun clear :: "MemModel \<Rightarrow> MemModel" where
  "clear (Plain s) = Plain (PlainMemModel_clear s)"
| "clear (ZX s) = ZX (ZXMemModel_clear s)"

fun getBytes :: "MemModel \<Rightarrow> u16 \<Rightarrow> u16 \<Rightarrow> fault + u8 list" where
  "getBytes (Plain s) Addr Size = PlainMemModel_getBytes s Addr Size"
| "getBytes (ZX s) Addr Size = ZXMemModel_getBytes s Addr Size"

text \<open>\<^verbatim>\<open>validateSlot\<close> returns the optional message; neither class changes the object.
  \<open>msg\<close> is the message text of the banked model (see \<open>ZXMemModel_validateSlot\<close>).\<close>

fun validateSlot :: "(int \<Rightarrow> string) \<Rightarrow> MemModel \<Rightarrow> int \<Rightarrow> string option" where
  "validateSlot msg (Plain s) Slot = fst (PlainMemModel_validateSlot s Slot)"
| "validateSlot msg (ZX s) Slot = fst (ZXMemModel_validateSlot msg s Slot)"

text \<open>\<^verbatim>\<open>MemModel::writeWord\<close>, defined in the base class over the virtual \<^verbatim>\<open>writeByte\<close>:
  \<^verbatim>\<open>writeByte(Addr, (uint8_t) (Word & 0xff), Ephemeral);\<close>
  \<^verbatim>\<open>writeByte((uint16_t) (Addr + 1), (uint8_t) (Word >> 8), Ephemeral);\<close>\<close>

definition writeWord :: "MemModel \<Rightarrow> u16 \<Rightarrow> u16 \<Rightarrow> bool \<Rightarrow> fault + MemModel" where
  "writeWord m Addr Word Ephemeral =
     (case writeByte m Addr (ucast (Word AND 0xff)) Ephemeral of
        Inl f \<Rightarrow> Inl f
      | Inr m' \<Rightarrow> writeByte m' (Addr + 1) (ucast (drop_bit 8 Word)) Ephemeral)"

subsection \<open>class MemoryManager\<close>

text \<open>
  \<^verbatim>\<open>std::map<std::string, MemModel *> MemModels; MemModel *CurrentMemModel;\<close>
  A pointer to a model is an address of the store \<open>heap\<close>; \<open>None\<close> is \<^verbatim>\<open>nullptr\<close>.
\<close>

type_synonym heap = "nat \<rightharpoonup> MemModel"

record MemoryManager =
  MemModels :: "string \<rightharpoonup> nat"
  CurrentMemModel :: "nat option"

definition isActive :: "MemoryManager \<Rightarrow> bool" where
  "isActive mgr = (CurrentMemModel mgr \<noteq> None)"

text \<open>\<^verbatim>\<open>void writeByte(uint16_t Addr, uint8_t Byte) { CurrentMemModel->writeByte(Addr, Byte, false); }\<close>\<close>

definition MemoryManager_writeByte :: "heap \<Rightarrow> MemoryManager \<Rightarrow> u16 \<Rightarrow> u8 \<Rightarrow> fault + heap" where
  "MemoryManager_writeByte h mgr Addr Byte =
     (case CurrentMemModel mgr of
        None \<Rightarrow> Inl NullPointer
      | Some p \<Rightarrow>
          (case h p of
             None \<Rightarrow> Inl NullPointer
           | Some m \<Rightarrow>
               (case writeByte m Addr Byte False of
                  Inl f \<Rightarrow> Inl f
                | Inr m' \<Rightarrow> Inr (h(p \<mapsto> m')))))"

text \<open>\<^verbatim>\<open>MemModel &getMemModel() { return *CurrentMemModel; }\<close>
  The returned reference is the address of the active model in the store.\<close>

definition MemoryManager_getMemModel :: "heap \<Rightarrow> MemoryManager \<Rightarrow> fault + nat" where
  "MemoryManager_getMemModel h mgr =
     (case CurrentMemModel mgr of
        None \<Rightarrow> Inl NullPointer
      | Some p \<Rightarrow>
          (case h p of
             None \<Rightarrow> Inl NullPointer
           | Some m \<Rightarrow> Inr p))"

subsection \<open>Notions used to state the properties\<close>

text \<open>A call \<^verbatim>\<open>r.writeByte(Addr, Byte, Ephemeral)\<close> of the public virtual method on a
  reference \<open>r\<close> to a model in the store, as a caller of \<^verbatim>\<open>getMemModel()\<close> can make it.\<close>

definition writeByte_ref :: "heap \<Rightarrow> nat \<Rightarrow> u16 \<Rightarrow> u8 \<Rightarrow> bool \<Rightarrow> fault + heap" where
  "writeByte_ref h r Addr Byte Ephemeral =
     (case h r of
        None \<Rightarrow> Inl NullPointer
      | Some m \<Rightarrow>
          (case writeByte m Addr Byte Ephemeral of
             Inl f \<Rightarrow> Inl f
           | Inr m' \<Rightarrow> Inr (h(r \<mapsto> m'))))"


text \<open>The class invariant of a model.\<close>

fun model_wf :: "MemModel \<Rightarrow> bool" where
  "model_wf (Plain s) = plain_wf s"
| "model_wf (ZX s) = zx_wf s"

text \<open>The physical location of a logical address: the index into the model's storage
  that \<^verbatim>\<open>readByte\<close> and \<^verbatim>\<open>writeByte\<close> use.\<close>

fun physical :: "MemModel \<Rightarrow> u16 \<Rightarrow> int" where
  "physical (Plain s) Addr = uint Addr"
| "physical (ZX s) Addr = addrToOffset s Addr"

text \<open>\<^verbatim>\<open>clearEphemerals()\<close> called \<open>n\<close> times in a row.\<close>

fun clearEphemerals_times :: "nat \<Rightarrow> MemModel \<Rightarrow> fault + MemModel" where
  "clearEphemerals_times 0 m = Inr m"
| "clearEphemerals_times (Suc n) m =
     (case clearEphemerals m of
        Inl f \<Rightarrow> Inl f
      | Inr m' \<Rightarrow> clearEphemerals_times n m')"

text \<open>The storage and the used-markers of a model, as sequences over physical locations.\<close>

fun storage :: "MemModel \<Rightarrow> u8 list" where
  "storage (Plain s) = Memory s"
| "storage (ZX s) = ZXMemory s"

fun markers :: "MemModel \<Rightarrow> bool list" where
  "markers (Plain s) = MemUsage s"
| "markers (ZX s) = ZXMemUsage s"

text \<open>What the loop of \<^verbatim>\<open>clearEphemerals\<close> leaves, location by location.\<close>

definition cleared :: "bool list \<Rightarrow> u8 list \<Rightarrow> u8 list" where
  "cleared usage mem = map (\<lambda>j. if \<not> usage ! j then 0 else mem ! j) [0..<length mem]"

section \<open>Properties\<close>

subsection \<open>Checked accesses and the loop of clearEphemerals\<close>

lemma at_index_in [simp]: "0 \<le> i \<Longrightarrow> i < int (length xs) \<Longrightarrow> at_index xs i = Inr (xs ! nat i)"
  by (simp add: at_index_def)

lemma set_index_in [simp]: "0 \<le> i \<Longrightarrow> i < int (length xs) \<Longrightarrow> set_index xs i v = Inr (xs[nat i := v])"
  by (simp add: set_index_def)

lemma length_cleared [simp]: "length (cleared usage mem) = length mem"
  by (simp add: cleared_def)

lemma nth_cleared [simp]: "j < length mem \<Longrightarrow> cleared usage mem ! j = (if \<not> usage ! j then 0 else mem ! j)"
  by (simp add: cleared_def)

lemma cleared_idem [simp]: "cleared usage (cleared usage mem) = cleared usage mem"
  by (rule nth_equalityI) simp_all

lemma clearEphemerals_loop_eq:
  "length mem \<le> length usage \<Longrightarrow>
   clearEphemerals_loop usage i mem =
     Inr (map (\<lambda>j. if i \<le> j \<and> \<not> usage ! j then 0 else mem ! j) [0..<length mem])"
proof (induction usage i mem rule: clearEphemerals_loop.induct)
  case (1 usage i mem)
  show ?case
  proof (cases "i < length mem")
    case False
    then show ?thesis
      by (subst clearEphemerals_loop.simps) (auto intro!: nth_equalityI)
  next
    case True
    with "1.prems" have iu: "i < length usage" by simp
    show ?thesis
    proof (cases "usage ! i")
      case True
      have "clearEphemerals_loop usage i mem = clearEphemerals_loop usage (Suc i) mem"
        using \<open>i < length mem\<close> iu True by (subst clearEphemerals_loop.simps) simp
      also have "\<dots> = Inr (map (\<lambda>j. if Suc i \<le> j \<and> \<not> usage ! j then 0 else mem ! j) [0..<length mem])"
        using "1.IH"(2) [of "usage ! i"] \<open>i < length mem\<close> iu True "1.prems" by simp
      also have "\<dots> = Inr (map (\<lambda>j. if i \<le> j \<and> \<not> usage ! j then 0 else mem ! j) [0..<length mem])"
        using True by (intro arg_cong [where f = Inr] map_cong refl) (auto simp: Suc_le_eq le_less)
      finally show ?thesis .
    next
      case False
      have "clearEphemerals_loop usage i mem = clearEphemerals_loop usage (Suc i) (mem[i := 0])"
        using \<open>i < length mem\<close> iu False by (subst clearEphemerals_loop.simps) simp
      also have "\<dots> = Inr (map (\<lambda>j. if Suc i \<le> j \<and> \<not> usage ! j then 0 else mem[i := 0] ! j) [0..<length (mem[i := 0])])"
        using "1.IH"(1) [of "usage ! i" "mem[i := 0]"] \<open>i < length mem\<close> iu False "1.prems" by simp
      also have "\<dots> = Inr (map (\<lambda>j. if i \<le> j \<and> \<not> usage ! j then 0 else mem ! j) [0..<length mem])"
        using False \<open>i < length mem\<close>
        by (simp only: length_list_update, intro arg_cong [where f = Inr] map_cong refl)
           (auto simp: Suc_le_eq le_less nth_list_update)
      finally show ?thesis .
    qed
  qed
qed

lemma clearEphemerals_loop_cleared:
  "length mem \<le> length usage \<Longrightarrow> clearEphemerals_loop usage 0 mem = Inr (cleared usage mem)"
  by (simp add: clearEphemerals_loop_eq cleared_def)


lemma slot_of_addr: "unat (Addr :: u16) div PageSize < 4"
proof -
  have "unat Addr < 2 ^ 16" using unsigned_less [of Addr] by simp
  then show ?thesis by (simp add: PageSize_def)
qed

lemma addrToOffset_bounds:
  assumes "zx_wf s"
  shows "0 \<le> addrToOffset s Addr" and "addrToOffset s Addr < int (length (ZXMemory s))"
proof -
  let ?p = "SlotPages s ! (unat Addr div PageSize)"
  have len: "length (SlotPages s) = 4" using assms by (simp add: zx_wf_def)
  have "unat Addr div PageSize < length (SlotPages s)" using slot_of_addr [of Addr] len by simp
  then have p: "0 \<le> ?p \<and> ?p < NumPages s"
    using assms by (simp add: zx_wf_def list_all_length)
  have r: "int (unat Addr mod PageSize) < int PageSize" by (simp add: PageSize_def)
  from p show "0 \<le> addrToOffset s Addr" by (simp add: addrToOffset_def)
  have "?p + 1 \<le> NumPages s" using p by simp
  then have "(?p + 1) * int PageSize \<le> NumPages s * int PageSize"
    by (rule mult_right_mono) simp
  then have "?p * int PageSize + int (unat Addr mod PageSize) < NumPages s * int PageSize"
    using r by (simp add: algebra_simps)
  then show "addrToOffset s Addr < int (length (ZXMemory s))"
    using assms by (simp add: zx_wf_def addrToOffset_def)
qed

lemma physical_bounds:
  assumes "model_wf m"
  shows "0 \<le> physical m Addr" and "physical m Addr < int (length (storage m))"
proof -
  show "0 \<le> physical m Addr"
    using assms by (cases m) (simp_all add: addrToOffset_bounds)
  show "physical m Addr < int (length (storage m))"
  proof (cases m)
    case (Plain s)
    have "uint Addr < 2 ^ 16" using uint_bounded [of Addr] by simp
    with Plain assms show ?thesis by (simp add: plain_wf_def)
  next
    case (ZX s)
    with assms show ?thesis by (simp add: addrToOffset_bounds)
  qed
qed

lemma markers_length: "model_wf m \<Longrightarrow> length (markers m) = length (storage m)"
  by (cases m) (simp_all add: plain_wf_def zx_wf_def)

lemma readByte_eq: "readByte m Addr = at_index (storage m) (physical m Addr)"
  by (cases m) (simp_all add: PlainMemModel_readByte_def ZXMemModel_readByte_def)

lemma usedAddr_eq: "usedAddr m Addr = at_index (markers m) (physical m Addr)"
  by (cases m) (simp_all add: PlainMemModel_usedAddr_def ZXMemModel_usedAddr_def)

lemma readByte_wf: "model_wf m \<Longrightarrow> readByte m Addr = Inr (storage m ! nat (physical m Addr))"
  by (simp add: readByte_eq physical_bounds)

lemma usedAddr_wf: "model_wf m \<Longrightarrow> usedAddr m Addr = Inr (markers m ! nat (physical m Addr))"
  by (simp add: usedAddr_eq physical_bounds markers_length)

lemma writeByte_wf:
  assumes "model_wf m"
  shows "\<exists>m'. writeByte m Addr Byte Ephemeral = Inr m' \<and> model_wf m' \<and>
           storage m' = (storage m)[nat (physical m Addr) := Byte] \<and>
           markers m' = (if Ephemeral then markers m else (markers m)[nat (physical m Addr) := True]) \<and>
           physical m' = physical m"
proof (cases m)
  case (Plain s)
  have b: "0 \<le> uint Addr" "uint Addr < int (length (Memory s))" "uint Addr < int (length (MemUsage s))"
    using physical_bounds [OF assms, of Addr] markers_length [OF assms] Plain by simp_all
  show ?thesis
    using Plain assms b by (auto simp: PlainMemModel_writeByte_def plain_wf_def fun_eq_iff)
next
  case (ZX s)
  have b: "0 \<le> addrToOffset s Addr" "addrToOffset s Addr < int (length (ZXMemory s))"
      "addrToOffset s Addr < int (length (ZXMemUsage s))"
    using physical_bounds [OF assms, of Addr] markers_length [OF assms] ZX by simp_all
  show ?thesis
    using ZX assms b
    by (auto simp: ZXMemModel_writeByte_def zx_wf_def fun_eq_iff addrToOffset_def Let_def)
qed

lemma clearEphemerals_wf:
  assumes "model_wf m"
  shows "\<exists>m'. clearEphemerals m = Inr m' \<and> model_wf m' \<and>
           storage m' = cleared (markers m) (storage m) \<and> markers m' = markers m \<and>
           physical m' = physical m \<and> clearEphemerals m' = Inr m'"
proof (cases m)
  case (Plain s)
  with assms have "length (Memory s) \<le> length (MemUsage s)" by (simp add: plain_wf_def)
  with Plain assms show ?thesis
    by (simp add: PlainMemModel_clearEphemerals_def clearEphemerals_loop_cleared plain_wf_def fun_eq_iff)
next
  case (ZX s)
  with assms have "length (ZXMemory s) \<le> length (ZXMemUsage s)" by (simp add: zx_wf_def)
  with ZX assms show ?thesis
    by (simp add: ZXMemModel_clearEphemerals_def clearEphemerals_loop_cleared zx_wf_def fun_eq_iff addrToOffset_def)
qed

lemma clear_wf:
  assumes "model_wf m"
  shows "model_wf (clear m)" and "storage (clear m) = replicate (length (storage m)) 0"
    and "markers (clear m) = replicate (length (storage m)) False"
    and "physical (clear m) = physical m"
  using assms
  by (cases m; simp add: PlainMemModel_clear_def ZXMemModel_clear_def plain_wf_def zx_wf_def fun_eq_iff addrToOffset_def)+

subsection \<open>Freshly constructed models\<close>

lemma plain_new_wf: "plain_wf PlainMemModel_new"
  by (simp add: plain_wf_def PlainMemModel_new_def PlainMemModel_clear_def)

lemma zx_new_wf: "8 \<le> NPages \<Longrightarrow> zx_wf (ZXMemModel_new name NPages)"
  by (simp add: zx_wf_def ZXMemModel_new_def)

subsection \<open>Paging on the flat model; cleared models and committed writes\<close>

text \<open>
  C7. On the flat model both forms of \<^verbatim>\<open>setPage\<close> return, for all arguments, the fixed
  message "The PLAIN memory model does not support page switching" and leave the object
  (its memory and its used-markers) as it was; \<^verbatim>\<open>isPagedMemory()\<close> is false and
  \<^verbatim>\<open>getNumMemPages()\<close> is 0.
\<close>

theorem plain_setPage_unsupported:
  "PlainMemModel_setPage s Slot Page =
     (Some ''The PLAIN memory model does not support page switching'', s) \<and>
   PlainMemModel_setPage_addr s Addr Page =
     (Some ''The PLAIN memory model does not support page switching'', s) \<and>
   isPagedMemory (Plain s) = False \<and> getNumMemPages (Plain s) = 0"
  by (simp add: PlainMemModel_setPage_def PlainMemModel_setPage_addr_def
      PlainMemModel_isPagedMemory_def PlainMemModel_getNumMemPages_def)

text \<open>
  C3. On a freshly cleared model every address reads 0 and is not marked used; a committed
  write \<^verbatim>\<open>writeByte(a, v, false)\<close> (on the cleared model, and on any model) makes
  \<^verbatim>\<open>readByte(a)\<close> return \<open>v\<close> and \<^verbatim>\<open>usedAddr(a)\<close> return true. Both models.
\<close>

theorem fresh_model_reads_zero_until_committed_write:
  assumes "model_wf m"
  shows "readByte (clear m) Addr = Inr 0 \<and> usedAddr (clear m) Addr = Inr False \<and>
         (\<exists>m'. writeByte (clear m) Addr v False = Inr m' \<and>
               readByte m' Addr = Inr v \<and> usedAddr m' Addr = Inr True) \<and>
         (\<exists>m'. writeByte m Addr v False = Inr m' \<and>
               readByte m' Addr = Inr v \<and> usedAddr m' Addr = Inr True)"
proof -
  have committed: "\<exists>m'. writeByte k Addr v False = Inr m' \<and>
      readByte m' Addr = Inr v \<and> usedAddr m' Addr = Inr True" if k: "model_wf k" for k
  proof -
    from writeByte_wf [OF k, of Addr v False]
    obtain m' where m': "writeByte k Addr v False = Inr m'" "model_wf m'"
        "storage m' = (storage k)[nat (physical k Addr) := v]"
        "markers m' = (markers k)[nat (physical k Addr) := True]"
        "physical m' = physical k"
      by auto
    have "nat (physical k Addr) < length (storage k)"
      using physical_bounds [OF k, of Addr] by simp
    then have "readByte m' Addr = Inr v" "usedAddr m' Addr = Inr True"
      using m' markers_length [OF k] by (simp_all add: readByte_wf usedAddr_wf)
    with m' show ?thesis by blast
  qed
  have c: "model_wf (clear m)" using assms by (rule clear_wf)
  have "nat (physical m Addr) < length (storage m)"
    using physical_bounds [OF assms, of Addr] by simp
  then have "readByte (clear m) Addr = Inr 0" "usedAddr (clear m) Addr = Inr False"
    using clear_wf [OF assms] by (simp_all add: readByte_wf usedAddr_wf)
  with committed [OF c] committed [OF assms] show ?thesis by simp
qed

theorem fresh_model_reads_zero_until_committed_write_witness:
  "model_wf (ZX (ZXMemModel_new ''ZXSPECTRUM128'' 8)) \<and>
   readByte (clear (ZX (ZXMemModel_new ''ZXSPECTRUM128'' 8))) 0x8001 = Inr 0 \<and>
   usedAddr (clear (ZX (ZXMemModel_new ''ZXSPECTRUM128'' 8))) 0x8001 = Inr False \<and>
   (\<exists>m'. writeByte (clear (ZX (ZXMemModel_new ''ZXSPECTRUM128'' 8))) 0x8001 0x3E False = Inr m' \<and>
         readByte m' 0x8001 = Inr 0x3E \<and> usedAddr m' 0x8001 = Inr True)"
proof -
  have h: "model_wf (ZX (ZXMemModel_new ''ZXSPECTRUM128'' 8))"
    by (simp add: zx_new_wf)
  show ?thesis
    using h fresh_model_reads_zero_until_committed_write [OF h, of "0x8001" "0x3E"] by simp
qed

subsection \<open>Ephemeral writes and their rollback\<close>

lemma ephemeral_write_then_clear:
  assumes k: "model_wf k"
  shows "\<exists>m1 m2. writeByte k Addr v1 True = Inr m1 \<and> model_wf m1 \<and> physical m1 = physical k \<and>
           storage m1 = (storage k)[nat (physical k Addr) := v1] \<and>
           readByte m1 Addr = Inr v1 \<and> markers m1 = markers k \<and> usedAddr m1 Addr = usedAddr k Addr \<and>
           clearEphemerals m1 = Inr m2 \<and>
           readByte m2 Addr = Inr (if usedAddr k Addr = Inr True then v1 else 0)"
proof -
  from writeByte_wf [OF k, of Addr v1 True]
  obtain m1 where m1: "writeByte k Addr v1 True = Inr m1" "model_wf m1"
      "storage m1 = (storage k)[nat (physical k Addr) := v1]"
      "markers m1 = markers k" "physical m1 = physical k"
    by auto
  from clearEphemerals_wf [OF m1(2)]
  obtain m2 where m2: "clearEphemerals m1 = Inr m2" "model_wf m2"
      "storage m2 = cleared (markers m1) (storage m1)" "physical m2 = physical m1"
    by auto
  have p: "nat (physical k Addr) < length (storage k)"
    using physical_bounds [OF k, of Addr] by simp
  have r1: "readByte m1 Addr = Inr v1"
    using m1 p by (simp add: readByte_wf)
  have u1: "usedAddr m1 Addr = usedAddr k Addr"
    using m1 k by (simp add: usedAddr_wf)
  have r2: "readByte m2 Addr = Inr (if usedAddr k Addr = Inr True then v1 else 0)"
    using m1 m2 p k by (simp add: readByte_wf usedAddr_wf)
  from m1 m2 r1 u1 r2 show ?thesis by blast
qed

lemma committed_after_ephemeral:
  assumes k: "model_wf k"
    and m1: "writeByte k Addr v1 True = Inr m1"
  shows "\<exists>m3 m4. writeByte m1 b v2 False = Inr m3 \<and> clearEphemerals m3 = Inr m4 \<and>
           readByte m4 Addr = Inr (if physical k b = physical k Addr then v2
                                   else if usedAddr k Addr = Inr True then v1 else 0)"
proof -
  from writeByte_wf [OF k, of Addr v1 True] m1
  have w1: "model_wf m1" "storage m1 = (storage k)[nat (physical k Addr) := v1]"
      "markers m1 = markers k" "physical m1 = physical k"
    by auto
  from writeByte_wf [OF w1(1), of b v2 False]
  obtain m3 where m3: "writeByte m1 b v2 False = Inr m3" "model_wf m3"
      "storage m3 = (storage m1)[nat (physical m1 b) := v2]"
      "markers m3 = (markers m1)[nat (physical m1 b) := True]" "physical m3 = physical m1"
    by auto
  from clearEphemerals_wf [OF m3(2)]
  obtain m4 where m4: "clearEphemerals m3 = Inr m4" "model_wf m4"
      "storage m4 = cleared (markers m3) (storage m3)" "physical m4 = physical m3"
    by auto
  have p: "nat (physical k Addr) < length (storage k)" "0 \<le> physical k Addr"
    using physical_bounds [OF k, of Addr] by simp_all
  have q: "nat (physical k b) < length (storage k)" "0 \<le> physical k b"
    using physical_bounds [OF k, of b] by simp_all
  have eq: "nat (physical k b) = nat (physical k Addr) \<longleftrightarrow> physical k b = physical k Addr"
    using p q by auto
  have "readByte m4 Addr = Inr (if physical k b = physical k Addr then v2
                                   else if usedAddr k Addr = Inr True then v1 else 0)"
    using w1 m3 m4 p q k eq markers_length [OF k]
    by (simp add: readByte_wf usedAddr_wf nth_list_update)
  with m3 m4 show ?thesis by blast
qed

text \<open>
  C1. On any model an ephemeral write \<^verbatim>\<open>writeByte(a, v1, true)\<close> stores \<open>v1\<close>
  (\<^verbatim>\<open>readByte(a)\<close> returns it) and leaves every used-marker as it was. A following
  \<^verbatim>\<open>clearEphemerals()\<close> makes \<^verbatim>\<open>readByte(a)\<close> return 0, unless the location was
  marked used by a committed write before (then the byte stays \<open>v1\<close>), or a committed
  write to the same physical location came in between (then the byte is the one that
  write stored); a committed write to another location in between changes nothing.
\<close>

theorem ephemeral_roundtrip:
  assumes "model_wf m"
  shows "\<exists>m1 m2. writeByte m Addr v1 True = Inr m1 \<and> readByte m1 Addr = Inr v1 \<and>
           markers m1 = markers m \<and> usedAddr m1 Addr = usedAddr m Addr \<and>
           clearEphemerals m1 = Inr m2 \<and>
           readByte m2 Addr = Inr (if usedAddr m Addr = Inr True then v1 else 0) \<and>
           (\<forall>b v2. \<exists>m3 m4. writeByte m1 b v2 False = Inr m3 \<and> clearEphemerals m3 = Inr m4 \<and>
              readByte m4 Addr = Inr (if physical m b = physical m Addr then v2
                                      else if usedAddr m Addr = Inr True then v1 else 0)) \<and>
           (\<forall>b v0. physical m b = physical m Addr \<longrightarrow>
              (\<exists>m0 m1' m2'. writeByte m b v0 False = Inr m0 \<and> writeByte m0 Addr v1 True = Inr m1' \<and>
                 clearEphemerals m1' = Inr m2' \<and> readByte m2' Addr = Inr v1))"
proof -
  from ephemeral_write_then_clear [OF assms, of Addr v1]
  obtain m1 m2 where a: "writeByte m Addr v1 True = Inr m1" "readByte m1 Addr = Inr v1"
      "markers m1 = markers m" "usedAddr m1 Addr = usedAddr m Addr" "clearEphemerals m1 = Inr m2"
      "readByte m2 Addr = Inr (if usedAddr m Addr = Inr True then v1 else 0)"
    by blast
  have later: "\<exists>m3 m4. writeByte m1 b v2 False = Inr m3 \<and> clearEphemerals m3 = Inr m4 \<and>
              readByte m4 Addr = Inr (if physical m b = physical m Addr then v2
                                      else if usedAddr m Addr = Inr True then v1 else 0)" for b v2
    by (rule committed_after_ephemeral [OF assms a(1)])
  have prior: "\<exists>m0 m1' m2'. writeByte m b v0 False = Inr m0 \<and> writeByte m0 Addr v1 True = Inr m1' \<and>
                 clearEphemerals m1' = Inr m2' \<and> readByte m2' Addr = Inr v1"
    if same: "physical m b = physical m Addr" for b v0
  proof -
    from writeByte_wf [OF assms, of b v0 False]
    obtain m0 where m0: "writeByte m b v0 False = Inr m0" "model_wf m0"
        "markers m0 = (markers m)[nat (physical m b) := True]" "physical m0 = physical m"
      by auto
    have "nat (physical m Addr) < length (markers m)"
      using physical_bounds [OF assms, of Addr] markers_length [OF assms] by simp
    then have used: "usedAddr m0 Addr = Inr True"
      using m0 same by (simp add: usedAddr_wf)
    from ephemeral_write_then_clear [OF m0(2), of Addr v1] used m0(1)
    show ?thesis by auto
  qed
  from a later prior show ?thesis by blast
qed

lemma plain_new_model_wf: "model_wf (Plain PlainMemModel_new)"
  by (simp add: plain_new_wf)

lemma plain_new_unused: "usedAddr (Plain PlainMemModel_new) Addr = Inr False"
proof -
  have "unat Addr < 2 ^ 16" using unsigned_less [of Addr] by simp
  moreover have "uint Addr < 2 ^ 16" using uint_bounded [of Addr] by simp
  ultimately show ?thesis
    by (simp add: PlainMemModel_usedAddr_def PlainMemModel_new_def PlainMemModel_clear_def)
qed

theorem ephemeral_roundtrip_witness:
  "model_wf (Plain PlainMemModel_new) \<and>
   (\<exists>m1 m2. writeByte (Plain PlainMemModel_new) 0x8000 0xC9 True = Inr m1 \<and>
      readByte m1 0x8000 = Inr 0xC9 \<and> usedAddr m1 0x8000 = Inr False \<and>
      clearEphemerals m1 = Inr m2 \<and> readByte m2 0x8000 = Inr 0 \<and>
      (\<exists>m3 m4. writeByte m1 0x8000 0x76 False = Inr m3 \<and> clearEphemerals m3 = Inr m4 \<and>
         readByte m4 0x8000 = Inr 0x76))"
proof -
  have h: "model_wf (Plain PlainMemModel_new)" by (rule plain_new_model_wf)
  from ephemeral_roundtrip [OF h, of "0x8000" "0xC9"]
  obtain m1 m2 where a: "writeByte (Plain PlainMemModel_new) 0x8000 0xC9 True = Inr m1"
      "readByte m1 0x8000 = Inr 0xC9"
      "usedAddr m1 0x8000 = usedAddr (Plain PlainMemModel_new) 0x8000"
      "clearEphemerals m1 = Inr m2"
      "readByte m2 0x8000 = Inr (if usedAddr (Plain PlainMemModel_new) 0x8000 = Inr True then 0xC9 else 0)"
      "\<forall>b v2. \<exists>m3 m4. writeByte m1 b v2 False = Inr m3 \<and> clearEphemerals m3 = Inr m4 \<and>
          readByte m4 0x8000 = Inr (if physical (Plain PlainMemModel_new) b = physical (Plain PlainMemModel_new) 0x8000 then v2
                                      else if usedAddr (Plain PlainMemModel_new) 0x8000 = Inr True then 0xC9 else 0)"
    by blast
  from a(6) [rule_format, of "0x8000" "0x76"]
  have b: "\<exists>m3 m4. writeByte m1 0x8000 0x76 False = Inr m3 \<and> clearEphemerals m3 = Inr m4 \<and>
         readByte m4 0x8000 = Inr 0x76"
    by simp
  have u: "usedAddr (Plain PlainMemModel_new) 0x8000 = Inr False"
    by (rule plain_new_unused)
  have c: "usedAddr m1 0x8000 = Inr False" "readByte m2 0x8000 = Inr 0"
    using a(3,5) unfolding u by simp_all
  from a(1,2,4) b c h show ?thesis
    by blast
qed

subsection \<open>Repeated clearEphemerals and committed writes\<close>

lemma clearEphemerals_times_wf:
  "model_wf m \<Longrightarrow>
   \<exists>mc. clearEphemerals_times n m = Inr mc \<and> model_wf mc \<and> markers mc = markers m \<and>
        physical mc = physical m \<and>
        storage mc = (if n = 0 then storage m else cleared (markers m) (storage m))"
proof (induction n arbitrary: m)
  case 0
  then show ?case by simp
next
  case (Suc n)
  from clearEphemerals_wf [OF Suc.prems]
  obtain m' where m': "clearEphemerals m = Inr m'" "model_wf m'"
      "storage m' = cleared (markers m) (storage m)" "markers m' = markers m"
      "physical m' = physical m"
    by auto
  from Suc.IH [OF m'(2)]
  obtain mc where mc: "clearEphemerals_times n m' = Inr mc" "model_wf mc" "markers mc = markers m'"
      "physical mc = physical m'"
      "storage mc = (if n = 0 then storage m' else cleared (markers m') (storage m'))"
    by auto
  from m' mc show ?case by simp
qed

lemma committed_write_survives:
  assumes "model_wf m"
  shows "\<exists>mw. writeByte m Addr v False = Inr mw \<and> model_wf mw \<and>
           readByte mw Addr = Inr v \<and> usedAddr mw Addr = Inr True \<and>
           (\<forall>n. \<exists>mc. clearEphemerals_times n mw = Inr mc \<and> readByte mc Addr = Inr v)"
proof -
  from writeByte_wf [OF assms, of Addr v False]
  obtain mw where mw: "writeByte m Addr v False = Inr mw" "model_wf mw"
      "storage mw = (storage m)[nat (physical m Addr) := v]"
      "markers mw = (markers m)[nat (physical m Addr) := True]"
      "physical mw = physical m"
    by auto
  have p: "nat (physical m Addr) < length (storage m)"
    using physical_bounds [OF assms, of Addr] by simp
  have r: "readByte mw Addr = Inr v" "usedAddr mw Addr = Inr True"
    using mw p markers_length [OF assms] by (simp_all add: readByte_wf usedAddr_wf)
  have "\<exists>mc. clearEphemerals_times n mw = Inr mc \<and> readByte mc Addr = Inr v" for n
  proof -
    from clearEphemerals_times_wf [OF mw(2), of n]
    obtain mc where mc: "clearEphemerals_times n mw = Inr mc" "model_wf mc"
        "physical mc = physical mw"
        "storage mc = (if n = 0 then storage mw else cleared (markers mw) (storage mw))"
      by auto
    have "readByte mc Addr = Inr v"
      using mc mw p markers_length [OF assms] by (simp add: readByte_wf)
    with mc show ?thesis by blast
  qed
  with mw r show ?thesis by blast
qed

text \<open>
  C2. \<^verbatim>\<open>clearEphemerals()\<close> is idempotent: a second call returns the state the first
  one left. It changes no used-marker and no byte whose used-marker is true. So after a
  committed write \<^verbatim>\<open>writeByte(a, v, false)\<close>, any number of \<^verbatim>\<open>clearEphemerals()\<close>
  calls leaves \<^verbatim>\<open>readByte(a) == v\<close>. Both models.
\<close>

theorem clearEphemerals_idempotent_keeps_used:
  assumes "model_wf m"
  shows "\<exists>m'. clearEphemerals m = Inr m' \<and> clearEphemerals m' = Inr m' \<and>
           markers m' = markers m \<and> length (storage m') = length (storage m) \<and>
           (\<forall>i. i < length (storage m) \<and> markers m ! i \<longrightarrow> storage m' ! i = storage m ! i) \<and>
           (\<forall>a. usedAddr m a = Inr True \<longrightarrow> readByte m' a = readByte m a) \<and>
           (\<forall>a v n. \<exists>mw mc. writeByte m a v False = Inr mw \<and>
              clearEphemerals_times n mw = Inr mc \<and> readByte mc a = Inr v)"
proof -
  from clearEphemerals_wf [OF assms]
  obtain m' where m': "clearEphemerals m = Inr m'" "model_wf m'"
      "storage m' = cleared (markers m) (storage m)" "markers m' = markers m"
      "physical m' = physical m" "clearEphemerals m' = Inr m'"
    by auto
  have bytes: "\<forall>i. i < length (storage m) \<and> markers m ! i \<longrightarrow> storage m' ! i = storage m ! i"
    using m'(3) by simp
  have reads: "\<forall>a. usedAddr m a = Inr True \<longrightarrow> readByte m' a = readByte m a"
  proof (intro allI impI)
    fix a assume "usedAddr m a = Inr True"
    then have u: "markers m ! nat (physical m a)" using assms by (simp add: usedAddr_wf)
    have "nat (physical m a) < length (storage m)"
      using physical_bounds [OF assms, of a] by simp
    with u show "readByte m' a = readByte m a"
      using m' assms by (simp add: readByte_wf)
  qed
  have writes: "\<forall>a v n. \<exists>mw mc. writeByte m a v False = Inr mw \<and>
              clearEphemerals_times n mw = Inr mc \<and> readByte mc a = Inr v"
    using committed_write_survives [OF assms] by blast
  from m' bytes reads writes show ?thesis
    by (intro exI [of _ m']) simp
qed

theorem clearEphemerals_idempotent_keeps_used_witness:
  "model_wf (ZX (ZXMemModel_new ''ZXSPECTRUM128'' 8)) \<and>
   (\<exists>mw mc m'. writeByte (ZX (ZXMemModel_new ''ZXSPECTRUM128'' 8)) 0xC000 0x21 False = Inr mw \<and>
      clearEphemerals_times 3 mw = Inr mc \<and> readByte mc 0xC000 = Inr 0x21 \<and>
      usedAddr mw 0xC000 = Inr True \<and>
      clearEphemerals mw = Inr m' \<and> clearEphemerals m' = Inr m' \<and>
      readByte m' 0xC000 = readByte mw 0xC000)"
proof -
  let ?m = "ZX (ZXMemModel_new ''ZXSPECTRUM128'' 8)"
  have h: "model_wf ?m" by (simp add: zx_new_wf)
  from clearEphemerals_idempotent_keeps_used [OF h]
  have "\<exists>mw mc. writeByte ?m 0xC000 0x21 False = Inr mw \<and>
              clearEphemerals_times 3 mw = Inr mc \<and> readByte mc 0xC000 = Inr 0x21"
    by blast
  then obtain mw mc where w: "writeByte ?m 0xC000 0x21 False = Inr mw"
      "clearEphemerals_times 3 mw = Inr mc" "readByte mc 0xC000 = Inr 0x21"
    by blast
  from committed_write_survives [OF h, of "0xC000" "0x21"] w(1)
  have k: "model_wf mw" "usedAddr mw 0xC000 = Inr True" by auto
  from clearEphemerals_idempotent_keeps_used [OF k(1)] k(2)
  obtain m' where "clearEphemerals mw = Inr m'" "clearEphemerals m' = Inr m'"
      "readByte m' 0xC000 = readByte mw 0xC000"
    by blast
  with w k h show ?thesis by blast
qed

lemma cleared_unmarked:
  "length mem \<le> n \<Longrightarrow> cleared (replicate n False) mem = replicate (length mem) 0"
  by (rule nth_equalityI) simp_all

text \<open>
  C10, as stated, fails in its last part: the registry does expose an ephemeral
  single-byte write. \<^verbatim>\<open>MemoryManager::getMemModel()\<close> returns the active model, and the
  model's public \<^verbatim>\<open>writeByte(a, v, true)\<close> called on it stores a byte that is not
  marked used and that \<^verbatim>\<open>clearEphemerals()\<close> wipes.
\<close>

theorem getMemModel_gives_ephemeral_write:
  "MemoryManager_getMemModel [0 \<mapsto> Plain PlainMemModel_new]
      \<lparr>MemModels = [''PLAIN'' \<mapsto> 0], CurrentMemModel = Some 0\<rparr> = Inr 0 \<and>
   writeByte_ref [0 \<mapsto> Plain PlainMemModel_new] 0 0x5B00 0xF3 True
     = Inr ([0 \<mapsto> Plain PlainMemModel_new]
            (0 \<mapsto> Plain (PlainMemModel_new\<lparr>Memory := (Memory PlainMemModel_new)[0x5B00 := 0xF3]\<rparr>))) \<and>
   readByte (Plain (PlainMemModel_new\<lparr>Memory := (Memory PlainMemModel_new)[0x5B00 := 0xF3]\<rparr>)) 0x5B00
     = Inr 0xF3 \<and>
   usedAddr (Plain (PlainMemModel_new\<lparr>Memory := (Memory PlainMemModel_new)[0x5B00 := 0xF3]\<rparr>)) 0x5B00
     = Inr False \<and>
   clearEphemerals (Plain (PlainMemModel_new\<lparr>Memory := (Memory PlainMemModel_new)[0x5B00 := 0xF3]\<rparr>))
     = Inr (Plain PlainMemModel_new) \<and>
   readByte (Plain PlainMemModel_new) 0x5B00 = Inr 0"
proof -
  let ?s1 = "PlainMemModel_new\<lparr>Memory := (Memory PlainMemModel_new)[0x5B00 := 0xF3]\<rparr>"
  have mem: "Memory PlainMemModel_new = replicate 0x10000 0"
    and use: "MemUsage PlainMemModel_new = replicate 0x10000 False"
    by (simp_all add: PlainMemModel_new_def PlainMemModel_clear_def)
  have a: "MemoryManager_getMemModel [0 \<mapsto> Plain PlainMemModel_new]
      \<lparr>MemModels = [''PLAIN'' \<mapsto> 0], CurrentMemModel = Some 0\<rparr> = Inr 0"
    by (simp add: MemoryManager_getMemModel_def)
  have w: "PlainMemModel_writeByte PlainMemModel_new 0x5B00 0xF3 True = Inr ?s1"
    by (simp add: PlainMemModel_writeByte_def mem)
  have b: "writeByte_ref [0 \<mapsto> Plain PlainMemModel_new] 0 0x5B00 0xF3 True
     = Inr ([0 \<mapsto> Plain PlainMemModel_new](0 \<mapsto> Plain ?s1))"
    by (simp add: writeByte_ref_def w)
  have c: "readByte (Plain ?s1) 0x5B00 = Inr 0xF3"
    by (simp add: PlainMemModel_readByte_def mem)
  have d: "usedAddr (Plain ?s1) 0x5B00 = Inr False"
    by (simp add: PlainMemModel_usedAddr_def use)
  have "clearEphemerals_loop (MemUsage ?s1) 0 (Memory ?s1) = Inr (replicate 0x10000 0)"
    by (simp add: clearEphemerals_loop_cleared mem use cleared_unmarked)
  then have e: "clearEphemerals (Plain ?s1) = Inr (Plain PlainMemModel_new)"
    by (simp add: PlainMemModel_clearEphemerals_def)
       (simp add: PlainMemModel_new_def PlainMemModel_clear_def)
  have f: "readByte (Plain PlainMemModel_new) 0x5B00 = Inr 0"
    by (simp add: PlainMemModel_readByte_def mem)
  from a b c d e f show ?thesis by (intro conjI)
qed

text \<open>
  C10, amended. \<^verbatim>\<open>MemoryManager::writeByte(a, v)\<close> has no ephemeral parameter: for every
  address and value it performs the committed write \<^verbatim>\<open>writeByte(a, v, false)\<close> on the
  active model; afterwards \<^verbatim>\<open>usedAddr(a)\<close> is true and the byte is still \<open>v\<close> after
  any number of \<^verbatim>\<open>clearEphemerals()\<close> calls. An ephemeral single-byte write is
  reachable through the registry only by \<^verbatim>\<open>getMemModel()\<close>, which returns the active
  model: \<^verbatim>\<open>writeByte(a, v, true)\<close> on it stores \<open>v\<close>, leaves the used-marker as it was,
  and \<^verbatim>\<open>clearEphemerals()\<close> then zeroes the byte unless the location was marked used.
\<close>

theorem MemoryManager_writeByte_committed:
  assumes "CurrentMemModel mgr = Some p" and "h p = Some m" and "model_wf m"
  shows "(\<exists>m'. MemoryManager_writeByte h mgr Addr v = Inr (h(p \<mapsto> m')) \<and>
           writeByte m Addr v False = Inr m' \<and>
           readByte m' Addr = Inr v \<and> usedAddr m' Addr = Inr True \<and>
           (\<forall>n. \<exists>mc. clearEphemerals_times n m' = Inr mc \<and> readByte mc Addr = Inr v)) \<and>
         MemoryManager_getMemModel h mgr = Inr p \<and>
         (\<exists>me mz. writeByte_ref h p Addr v True = Inr (h(p \<mapsto> me)) \<and>
           writeByte m Addr v True = Inr me \<and>
           readByte me Addr = Inr v \<and> usedAddr me Addr = usedAddr m Addr \<and>
           clearEphemerals me = Inr mz \<and>
           readByte mz Addr = Inr (if usedAddr m Addr = Inr True then v else 0))"
proof -
  from committed_write_survives [OF assms(3), of Addr v]
  obtain mw where mw: "writeByte m Addr v False = Inr mw"
      "readByte mw Addr = Inr v" "usedAddr mw Addr = Inr True"
      "\<forall>n. \<exists>mc. clearEphemerals_times n mw = Inr mc \<and> readByte mc Addr = Inr v"
    by blast
  have "MemoryManager_writeByte h mgr Addr v = Inr (h(p \<mapsto> mw))"
    using assms(1,2) mw(1) by (simp add: MemoryManager_writeByte_def)
  with mw have committed: "\<exists>m'. MemoryManager_writeByte h mgr Addr v = Inr (h(p \<mapsto> m')) \<and>
           writeByte m Addr v False = Inr m' \<and>
           readByte m' Addr = Inr v \<and> usedAddr m' Addr = Inr True \<and>
           (\<forall>n. \<exists>mc. clearEphemerals_times n m' = Inr mc \<and> readByte mc Addr = Inr v)"
    by blast
  have ref: "MemoryManager_getMemModel h mgr = Inr p"
    using assms(1,2) by (simp add: MemoryManager_getMemModel_def)
  from ephemeral_write_then_clear [OF assms(3), of Addr v]
  obtain me mz where me: "writeByte m Addr v True = Inr me" "readByte me Addr = Inr v"
      "usedAddr me Addr = usedAddr m Addr" "clearEphemerals me = Inr mz"
      "readByte mz Addr = Inr (if usedAddr m Addr = Inr True then v else 0)"
    by blast
  have "writeByte_ref h p Addr v True = Inr (h(p \<mapsto> me))"
    using assms(2) me(1) by (simp add: writeByte_ref_def)
  with me have eph: "\<exists>me mz. writeByte_ref h p Addr v True = Inr (h(p \<mapsto> me)) \<and>
           writeByte m Addr v True = Inr me \<and>
           readByte me Addr = Inr v \<and> usedAddr me Addr = usedAddr m Addr \<and>
           clearEphemerals me = Inr mz \<and>
           readByte mz Addr = Inr (if usedAddr m Addr = Inr True then v else 0)"
    by blast
  show ?thesis by (intro conjI committed ref eph)
qed

theorem MemoryManager_writeByte_committed_witness:
  "CurrentMemModel \<lparr>MemModels = [''PLAIN'' \<mapsto> 0], CurrentMemModel = Some 0\<rparr> = Some 0 \<and>
   [0 \<mapsto> Plain PlainMemModel_new] (0::nat) = Some (Plain PlainMemModel_new) \<and>
   model_wf (Plain PlainMemModel_new) \<and>
   (\<exists>m'. MemoryManager_writeByte [0 \<mapsto> Plain PlainMemModel_new]
            \<lparr>MemModels = [''PLAIN'' \<mapsto> 0], CurrentMemModel = Some 0\<rparr> 0x5B00 0xF3
          = Inr ([0 \<mapsto> Plain PlainMemModel_new](0 \<mapsto> m')) \<and>
        readByte m' 0x5B00 = Inr 0xF3 \<and> usedAddr m' 0x5B00 = Inr True \<and>
        (\<exists>mc. clearEphemerals_times 2 m' = Inr mc \<and> readByte mc 0x5B00 = Inr 0xF3)) \<and>
   MemoryManager_getMemModel [0 \<mapsto> Plain PlainMemModel_new]
      \<lparr>MemModels = [''PLAIN'' \<mapsto> 0], CurrentMemModel = Some 0\<rparr> = Inr 0 \<and>
   (\<exists>me mz. writeByte_ref [0 \<mapsto> Plain PlainMemModel_new] 0 0x5B00 0xF3 True
          = Inr ([0 \<mapsto> Plain PlainMemModel_new](0 \<mapsto> me)) \<and>
        readByte me 0x5B00 = Inr 0xF3 \<and> usedAddr me 0x5B00 = Inr False \<and>
        clearEphemerals me = Inr mz \<and> readByte mz 0x5B00 = Inr 0)"
proof -
  let ?mgr = "\<lparr>MemModels = [''PLAIN'' \<mapsto> 0], CurrentMemModel = Some 0\<rparr>"
  let ?h = "[(0::nat) \<mapsto> Plain PlainMemModel_new]"
  have a: "CurrentMemModel ?mgr = Some 0" by simp
  have b: "?h 0 = Some (Plain PlainMemModel_new)" by simp
  have c: "model_wf (Plain PlainMemModel_new)" by (rule plain_new_model_wf)
  have u: "usedAddr (Plain PlainMemModel_new) 0x5B00 = Inr False" by (rule plain_new_unused)
  note t = MemoryManager_writeByte_committed [where mgr = ?mgr and p = 0 and h = ?h
      and m = "Plain PlainMemModel_new" and Addr = "0x5B00" and v = "0xF3", OF a b c]
  from t obtain m' where m': "MemoryManager_writeByte ?h ?mgr 0x5B00 0xF3 = Inr (?h(0 \<mapsto> m'))"
      "readByte m' 0x5B00 = Inr 0xF3" "usedAddr m' 0x5B00 = Inr True"
      "\<forall>n. \<exists>mc. clearEphemerals_times n m' = Inr mc \<and> readByte mc 0x5B00 = Inr 0xF3"
    by blast
  from t have g: "MemoryManager_getMemModel ?h ?mgr = Inr 0" by blast
  from t obtain me mz where e: "writeByte_ref ?h 0 0x5B00 0xF3 True = Inr (?h(0 \<mapsto> me))"
      "readByte me 0x5B00 = Inr 0xF3"
      "usedAddr me 0x5B00 = usedAddr (Plain PlainMemModel_new) 0x5B00"
      "clearEphemerals me = Inr mz"
      "readByte mz 0x5B00 = Inr (if usedAddr (Plain PlainMemModel_new) 0x5B00 = Inr True then 0xF3 else 0)"
    by blast
  have e': "usedAddr me 0x5B00 = Inr False" "readByte mz 0x5B00 = Inr 0"
    using e(3,5) unfolding u by simp_all
  from a b c m' g e(1,2,4) e' show ?thesis by blast
qed

subsection \<open>writeWord\<close>

lemma low_byte: "(ucast ((Word :: u16) AND 0xff) :: u8) = ucast Word"
proof -
  have "(0xff :: u16) = mask 8" by (simp add: mask_eq_exp_minus_1)
  then have "Word AND 0xff = take_bit 8 Word" by (simp add: take_bit_eq_mask)
  then show ?thesis by (simp add: bit_word_eqI bit_simps)
qed

lemma low_byte_value: "unat (ucast (Word :: u16) :: u8) = unat Word mod 256"
  by (simp add: unsigned_ucast_eq take_bit_eq_mod)

lemma high_byte_value: "unat (ucast (drop_bit 8 (Word :: u16)) :: u8) = unat Word div 256"
proof -
  have "unat Word < 2 ^ 16" using unsigned_less [of Word] by simp
  then have "unat Word div 256 < 256" by simp
  then show ?thesis
    by (simp add: unsigned_ucast_eq take_bit_eq_mod drop_bit_eq_div unat_div)
qed

lemma next_addr_value: "unat ((Addr :: u16) + 1) = (unat Addr + 1) mod 0x10000"
  by (simp add: unat_word_ariths)

lemma next_addr_in_page: "unat ((Addr :: u16) + 1) mod PageSize \<noteq> unat Addr mod PageSize"
proof -
  have "unat (Addr + 1) mod PageSize = (unat Addr + 1) mod 0x10000 mod 0x4000"
    by (simp add: next_addr_value PageSize_def)
  also have "\<dots> = (unat Addr + 1) mod 0x4000"
    by (rule mod_mod_cancel) simp
  finally have e: "unat (Addr + 1) mod PageSize = (unat Addr + 1) mod 0x4000" .
  have "\<not> (0x4000 :: nat) dvd (unat Addr + 1 - unat Addr)" by simp
  then have "(unat Addr + 1) mod 0x4000 \<noteq> unat Addr mod 0x4000"
    by (subst mod_eq_dvd_iff_nat) simp_all
  with e show ?thesis by (simp add: PageSize_def)
qed

lemma physical_next_neq:
  assumes "model_wf m"
  shows "physical m (Addr + 1) \<noteq> physical m Addr"
proof (cases m)
  case (Plain s)
  then show ?thesis by (simp add: word_uint_eq_iff [symmetric])
next
  case (ZX s)
  show ?thesis
  proof
    assume "physical m (Addr + 1) = physical m Addr"
    then have "(SlotPages s ! (unat (Addr + 1) div PageSize) * int PageSize
          + int (unat (Addr + 1) mod PageSize)) mod int PageSize
        = (SlotPages s ! (unat Addr div PageSize) * int PageSize
          + int (unat Addr mod PageSize)) mod int PageSize"
      using ZX by (simp add: addrToOffset_def)
    then have "int (unat (Addr + 1) mod PageSize) = int (unat Addr mod PageSize)"
      by (simp add: zmod_int)
    with next_addr_in_page [of Addr] show False by simp
  qed
qed


lemma writeWord_effect:
  assumes "model_wf m"
  shows "\<exists>m1 m2. writeByte m Addr (ucast (Word AND 0xff)) e = Inr m1 \<and>
           writeByte m1 (Addr + 1) (ucast (drop_bit 8 Word)) e = Inr m2 \<and>
           writeWord m Addr Word e = Inr m2 \<and>
           storage m2 = (storage m)[nat (physical m Addr) := ucast Word,
                                    nat (physical m (Addr + 1)) := ucast (drop_bit 8 Word)] \<and>
           markers m2 = (if e then markers m
                         else (markers m)[nat (physical m Addr) := True,
                                          nat (physical m (Addr + 1)) := True]) \<and>
           readByte m2 Addr = Inr (ucast Word) \<and>
           readByte m2 (Addr + 1) = Inr (ucast (drop_bit 8 Word))"
proof -
  from writeByte_wf [OF assms, of Addr "ucast (Word AND 0xff)" e]
  obtain m1 where m1: "writeByte m Addr (ucast (Word AND 0xff)) e = Inr m1" "model_wf m1"
      "storage m1 = (storage m)[nat (physical m Addr) := ucast (Word AND 0xff)]"
      "markers m1 = (if e then markers m else (markers m)[nat (physical m Addr) := True])"
      "physical m1 = physical m"
    by auto
  from writeByte_wf [OF m1(2), of "Addr + 1" "ucast (drop_bit 8 Word)" e]
  obtain m2 where m2: "writeByte m1 (Addr + 1) (ucast (drop_bit 8 Word)) e = Inr m2" "model_wf m2"
      "storage m2 = (storage m1)[nat (physical m1 (Addr + 1)) := ucast (drop_bit 8 Word)]"
      "markers m2 = (if e then markers m1 else (markers m1)[nat (physical m1 (Addr + 1)) := True])"
      "physical m2 = physical m1"
    by auto
  have p: "nat (physical m Addr) < length (storage m)" "0 \<le> physical m Addr"
    using physical_bounds [OF assms, of Addr] by simp_all
  have q: "nat (physical m (Addr + 1)) < length (storage m)" "0 \<le> physical m (Addr + 1)"
    using physical_bounds [OF assms, of "Addr + 1"] by simp_all
  have ne: "nat (physical m (Addr + 1)) \<noteq> nat (physical m Addr)"
    using physical_next_neq [OF assms, of Addr] p q by simp
  have w: "writeWord m Addr Word e = Inr m2"
    using m1(1) m2(1) by (simp add: writeWord_def)
  have st: "storage m2 = (storage m)[nat (physical m Addr) := ucast Word,
                                    nat (physical m (Addr + 1)) := ucast (drop_bit 8 Word)]"
    using m1 m2 by (simp add: low_byte)
  have mk: "markers m2 = (if e then markers m
                         else (markers m)[nat (physical m Addr) := True,
                                          nat (physical m (Addr + 1)) := True])"
    using m1 m2 by simp
  have r: "readByte m2 Addr = Inr (ucast Word)"
      "readByte m2 (Addr + 1) = Inr (ucast (drop_bit 8 Word))"
    using m1(5) m2(2,5) st p q ne by (simp_all add: readByte_wf)
  from m1(1) m2(1) w st mk r show ?thesis by blast
qed

text \<open>
  C6. \<^verbatim>\<open>writeWord(a, w, e)\<close> is two \<^verbatim>\<open>writeByte\<close> calls with the same flag: first the
  low byte (\<open>w mod 256\<close>) at \<open>a\<close>, then the high byte (\<open>w div 256\<close>) at \<open>a + 1\<close>
  taken modulo \<open>0x10000\<close>. Exactly these two locations are written, and both bytes read
  back. \<^verbatim>\<open>writeWord(0xFFFF, 0x1234, false)\<close> places \<open>0x34\<close> at \<open>0xFFFF\<close> and \<open>0x12\<close> at
  \<open>0x0000\<close>. Both models.
\<close>

theorem writeWord_low_byte_first_wraps:
  assumes "model_wf m"
  shows "(\<exists>m1 m2. writeByte m Addr (ucast (Word AND 0xff)) e = Inr m1 \<and>
           writeByte m1 (Addr + 1) (ucast (drop_bit 8 Word)) e = Inr m2 \<and>
           writeWord m Addr Word e = Inr m2 \<and>
           storage m2 = (storage m)[nat (physical m Addr) := ucast Word,
                                    nat (physical m (Addr + 1)) := ucast (drop_bit 8 Word)] \<and>
           markers m2 = (if e then markers m
                         else (markers m)[nat (physical m Addr) := True,
                                          nat (physical m (Addr + 1)) := True]) \<and>
           readByte m2 Addr = Inr (ucast Word) \<and>
           readByte m2 (Addr + 1) = Inr (ucast (drop_bit 8 Word))) \<and>
         unat (ucast Word :: u8) = unat Word mod 256 \<and>
         unat (ucast (drop_bit 8 Word) :: u8) = unat Word div 256 \<and>
         unat (Addr + 1) = (unat Addr + 1) mod 0x10000 \<and>
         (\<exists>m'. writeWord m 0xFFFF 0x1234 False = Inr m' \<and>
               readByte m' 0xFFFF = Inr 0x34 \<and> readByte m' 0x0000 = Inr 0x12)"
proof -
  have lo: "(ucast (0x1234 :: u16) :: u8) = 0x34" by simp
  have hi: "(ucast (drop_bit 8 (0x1234 :: u16)) :: u8) = 0x12" by (simp add: drop_bit_eq_div)
  have nx: "(0xFFFF :: u16) + 1 = 0x0000" by simp
  from writeWord_effect [OF assms, of "0xFFFF" "0x1234" False]
  have ex: "\<exists>m'. writeWord m 0xFFFF 0x1234 False = Inr m' \<and>
               readByte m' 0xFFFF = Inr 0x34 \<and> readByte m' 0x0000 = Inr 0x12"
    unfolding lo hi nx by blast
  show ?thesis
    by (intro conjI writeWord_effect [OF assms] ex low_byte_value high_byte_value next_addr_value)
qed

theorem writeWord_low_byte_first_wraps_witness:
  "model_wf (ZX (ZXMemModel_new ''ZXSPECTRUM128'' 8)) \<and>
   (\<exists>m'. writeWord (ZX (ZXMemModel_new ''ZXSPECTRUM128'' 8)) 0xFFFF 0x1234 False = Inr m' \<and>
         readByte m' 0xFFFF = Inr 0x34 \<and> readByte m' 0x0000 = Inr 0x12)"
proof -
  have h: "model_wf (ZX (ZXMemModel_new ''ZXSPECTRUM128'' 8))"
    by (simp add: zx_new_wf)
  from writeWord_low_byte_first_wraps [OF h] h show ?thesis by blast
qed

subsection \<open>Address translation and slot validation\<close>

text \<open>
  C4. In the banked model the physical index of every 16-bit address \<open>addr\<close>, the one
  \<^verbatim>\<open>readByte\<close> and \<^verbatim>\<open>usedAddr\<close> access, is
  \<open>SlotPages[addr / 0x4000] * 0x4000 + addr % 0x4000\<close>. Right after construction the
  slots 0, 1, 2, 3 are mapped to the pages 0, 5, 2, 7, so \<^verbatim>\<open>getPageForAddress\<close> returns
  0, 5, 2, 7 at \<open>0x0000\<close>, \<open>0x4000\<close>, \<open>0x8000\<close>, \<open>0xC000\<close>, and
  \<^verbatim>\<open>getDefaultSlot()\<close> is 3.
\<close>

theorem banked_translation_and_default_mapping:
  "addrToOffset s Addr
     = SlotPages s ! (unat Addr div 0x4000) * 0x4000 + int (unat Addr mod 0x4000) \<and>
   ZXMemModel_readByte s Addr
     = at_index (ZXMemory s) (SlotPages s ! (unat Addr div 0x4000) * 0x4000 + int (unat Addr mod 0x4000)) \<and>
   ZXMemModel_usedAddr s Addr
     = at_index (ZXMemUsage s) (SlotPages s ! (unat Addr div 0x4000) * 0x4000 + int (unat Addr mod 0x4000)) \<and>
   SlotPages (ZXMemModel_new name NPages) = [0, 5, 2, 7] \<and>
   ZXMemModel_getPageNumInSlot (ZXMemModel_new name NPages) 0 = Inr 0 \<and>
   ZXMemModel_getPageNumInSlot (ZXMemModel_new name NPages) 1 = Inr 5 \<and>
   ZXMemModel_getPageNumInSlot (ZXMemModel_new name NPages) 2 = Inr 2 \<and>
   ZXMemModel_getPageNumInSlot (ZXMemModel_new name NPages) 3 = Inr 7 \<and>
   ZXMemModel_getPageForAddress (ZXMemModel_new name NPages) Addr = [0, 5, 2, 7] ! (unat Addr div 0x4000) \<and>
   ZXMemModel_getPageForAddress (ZXMemModel_new name NPages) 0x0000 = 0 \<and>
   ZXMemModel_getPageForAddress (ZXMemModel_new name NPages) 0x4000 = 5 \<and>
   ZXMemModel_getPageForAddress (ZXMemModel_new name NPages) 0x8000 = 2 \<and>
   ZXMemModel_getPageForAddress (ZXMemModel_new name NPages) 0xC000 = 7 \<and>
   ZXMemModel_getDefaultSlot (ZXMemModel_new name NPages) = 3 \<and>
   getDefaultSlot (ZX (ZXMemModel_new name NPages)) = 3"
  by (simp add: addrToOffset_def ZXMemModel_readByte_def ZXMemModel_usedAddr_def PageSize_def
      ZXMemModel_new_def ZXMemModel_getPageNumInSlot_def ZXMemModel_getPageForAddress_def
      ZXMemModel_getDefaultSlot_def at_index_def)

text \<open>
  C8, as stated, fails on the flat model: \<^verbatim>\<open>PlainMemModel::validateSlot\<close> returns the
  fixed page-switching message for every slot, also for slot 0, which the flat model
  reports as its default slot.
\<close>

theorem plain_validateSlot_rejects_default_slot:
  "PlainMemModel_getDefaultSlot PlainMemModel_new = 0 \<and>
   validateSlot (\<lambda>Slot. []) (Plain PlainMemModel_new) 0
     = Some ''The PLAIN memory model does not support page switching''"
  by (simp add: PlainMemModel_getDefaultSlot_def PlainMemModel_validateSlot_def
      PlainMemModel_setPage_def)

text \<open>
  C8, amended. On the banked model \<^verbatim>\<open>validateSlot(slot)\<close> returns none exactly when
  \<open>0 \<le> slot < NumSlots\<close> (\<open>NumSlots\<close> is 4) and an error message otherwise. On the flat
  model it returns the fixed message "The PLAIN memory model does not support page
  switching" for every slot. It never changes the model.
\<close>

theorem validateSlot_by_model:
  "(validateSlot msg m Slot = None) = (\<exists>s. m = ZX s \<and> 0 \<le> Slot \<and> Slot < NumSlots s) \<and>
   validateSlot msg (ZX s) Slot = (if 0 \<le> Slot \<and> Slot < NumSlots s then None else Some (msg Slot)) \<and>
   snd (ZXMemModel_validateSlot msg s Slot) = s \<and>
   NumSlots (ZXMemModel_new name NPages) = 4 \<and>
   validateSlot msg (Plain p) Slot = Some ''The PLAIN memory model does not support page switching'' \<and>
   snd (PlainMemModel_validateSlot p Slot) = p"
  by (cases m)
     (auto simp: PlainMemModel_validateSlot_def PlainMemModel_setPage_def
        ZXMemModel_validateSlot_def ZXMemModel_new_def)

subsection \<open>Bulk reads by logical address\<close>

lemma getBytes_loop_ok:
  "(\<And>j. i \<le> j \<Longrightarrow> j < Size \<Longrightarrow> rd j = Inr (f j)) \<Longrightarrow>
   getBytes_loop rd i Size Dest = Inr (Dest @ map f [i..<Size])"
proof (induction rd i Size Dest rule: getBytes_loop.induct)
  case (1 rd i Size Dest)
  show ?case
  proof (cases "i < Size")
    case False
    then show ?thesis by (subst getBytes_loop.simps) simp
  next
    case True
    have here: "rd i = Inr (f i)" using "1.prems" [of i] True by simp
    have "getBytes_loop rd (Suc i) Size (Dest @ [f i]) = Inr ((Dest @ [f i]) @ map f [Suc i..<Size])"
      using "1.IH" [OF True here] "1.prems" by simp
    then show ?thesis
      using True here by (subst getBytes_loop.simps) (simp add: upt_conv_Cons)
  qed
qed

lemma getBytes_loop_fault:
  "i \<le> k \<Longrightarrow> k < Size \<Longrightarrow> rd k = Inl e \<Longrightarrow>
   (\<And>j. i \<le> j \<Longrightarrow> j < k \<Longrightarrow> rd j = Inr (f j)) \<Longrightarrow>
   getBytes_loop rd i Size Dest = Inl e"
proof (induction rd i Size Dest rule: getBytes_loop.induct)
  case (1 rd i Size Dest)
  from "1.prems"(1,2) have lt: "i < Size" by simp
  show ?case
  proof (cases "i = k")
    case True
    with "1.prems"(3) lt show ?thesis by (subst getBytes_loop.simps) simp
  next
    case False
    with "1.prems"(1) have ik: "i < k" by simp
    have here: "rd i = Inr (f i)" using "1.prems"(4) [of i] ik by simp
    have "getBytes_loop rd (Suc i) Size (Dest @ [f i]) = Inl e"
      using "1.IH" [OF lt here] ik "1.prems" by simp
    then show ?thesis
      using lt here by (subst getBytes_loop.simps) simp
  qed
qed

lemma ZXMemModel_getBytes_wraps:
  assumes "zx_wf s"
  shows "ZXMemModel_getBytes s Addr Size
           = Inr (map (\<lambda>i. ZXMemory s ! nat (addrToOffset s (Addr + word_of_nat i))) [0..<unat Size])"
proof -
  have "ZXMemModel_readByte s (word_of_int (uint Addr + int i))
          = Inr (ZXMemory s ! nat (addrToOffset s (Addr + word_of_nat i)))" for i
    using addrToOffset_bounds [OF assms, of "Addr + word_of_nat i"]
    by (simp add: ZXMemModel_readByte_def)
  then have "getBytes_loop (\<lambda>i. ZXMemModel_readByte s (word_of_int (uint Addr + int i))) 0 (unat Size) []
      = Inr ([] @ map (\<lambda>i. ZXMemory s ! nat (addrToOffset s (Addr + word_of_nat i))) [0..<unat Size])"
    by (intro getBytes_loop_ok)
  then show ?thesis
    by (simp add: ZXMemModel_getBytes_def)
qed

lemma at_index_nat: "n < length xs \<Longrightarrow> at_index xs (int n) = Inr (xs ! n)"
  by (simp add: at_index_def)

lemma at_index_nat_outside: "length xs \<le> n \<Longrightarrow> at_index xs (int n) = Inl OutOfBounds"
  by (simp add: at_index_def)

lemma PlainMemModel_getBytes_inside:
  assumes "plain_wf s" and "unat Addr + unat Size \<le> 0x10000"
  shows "PlainMemModel_getBytes s Addr Size
           = Inr (map (\<lambda>i. Memory s ! (unat Addr + i)) [0..<unat Size])"
proof -
  have "at_index (Memory s) (uint Addr + int i) = Inr (Memory s ! (unat Addr + i))"
    if "i < unat Size" for i
  proof -
    have e: "uint Addr + int i = int (unat Addr + i)" by simp
    have "unat Addr + i < length (Memory s)"
      using assms that by (simp add: plain_wf_def)
    then show ?thesis unfolding e by (rule at_index_nat)
  qed
  then have "getBytes_loop (\<lambda>i. at_index (Memory s) (uint Addr + int i)) 0 (unat Size) []
      = Inr ([] @ map (\<lambda>i. Memory s ! (unat Addr + i)) [0..<unat Size])"
    by (intro getBytes_loop_ok)
  then show ?thesis
    by (simp add: PlainMemModel_getBytes_def)
qed

lemma PlainMemModel_getBytes_outside:
  assumes "plain_wf s" and "0x10000 < unat Addr + unat Size"
  shows "PlainMemModel_getBytes s Addr Size = Inl OutOfBounds"
proof -
  have a: "unat Addr < 0x10000" using unsigned_less [of Addr] by simp
  let ?k = "0x10000 - unat Addr"
  have k: "?k < unat Size" using assms(2) a by simp
  have len: "length (Memory s) = 0x10000" using assms(1) by (simp add: plain_wf_def)
  have e: "uint Addr + int ?k = int (unat Addr + ?k)" by simp
  have "length (Memory s) \<le> unat Addr + ?k" using a len by simp
  then have stop: "at_index (Memory s) (uint Addr + int ?k) = Inl OutOfBounds"
    unfolding e by (rule at_index_nat_outside)
  have before: "at_index (Memory s) (uint Addr + int j) = Inr (Memory s ! (unat Addr + j))"
    if "j < ?k" for j
  proof -
    have e: "uint Addr + int j = int (unat Addr + j)" by simp
    have "unat Addr + j < length (Memory s)" using that len by simp
    then show ?thesis unfolding e by (rule at_index_nat)
  qed
  show ?thesis
    unfolding PlainMemModel_getBytes_def
    by (rule getBytes_loop_fault [where k = ?k and f = "\<lambda>j. Memory s ! (unat Addr + j)"])
       (simp_all only: k stop before le0)
qed

lemma ZXMemModel_getBytes_matches_readByte:
  assumes "zx_wf s"
  shows "\<exists>dest. getBytes (ZX s) Addr Size = Inr dest \<and> length dest = unat Size \<and>
           (\<forall>i < unat Size. readByte (ZX s) (Addr + word_of_nat i) = Inr (dest ! i))"
proof -
  have "readByte (ZX s) a = Inr (ZXMemory s ! nat (addrToOffset s a))" for a
    using readByte_wf [of "ZX s" a] assms by simp
  then show ?thesis
    by (simp add: ZXMemModel_getBytes_wraps [OF assms] del: readByte.simps)
qed

lemma PlainMemModel_getBytes_matches_readByte:
  assumes "plain_wf s" and "unat Addr + unat Size \<le> 0x10000"
  shows "\<exists>dest. getBytes (Plain s) Addr Size = Inr dest \<and> length dest = unat Size \<and>
           (\<forall>i < unat Size. readByte (Plain s) (Addr + word_of_nat i) = Inr (dest ! i))"
proof -
  have "readByte (Plain s) (Addr + word_of_nat i) = Inr (Memory s ! (unat Addr + i))"
    if "i < unat Size" for i
  proof -
    have "unat Addr + i < 2 ^ 16" using assms(2) that by simp
    then have "unat (Addr + word_of_nat i) = unat Addr + i"
      by (simp add: unat_word_ariths unat_of_nat take_bit_eq_mod)
    then have "nat (physical (Plain s) (Addr + word_of_nat i)) = unat Addr + i"
      by simp
    then show ?thesis
      using readByte_wf [of "Plain s" "Addr + word_of_nat i"] assms(1)
      by (simp del: readByte.simps)
  qed
  then show ?thesis
    by (simp add: PlainMemModel_getBytes_inside [OF assms] del: readByte.simps)
qed

text \<open>
  C5. \<^verbatim>\<open>getBytes(dest, a, n)\<close> is claimed to honour the 16-bit wraparound on both
  models. The banked \<^verbatim>\<open>getBytes\<close> does (\<open>ZXMemModel_getBytes_matches_readByte\<close>); the
  flat one indexes \<^verbatim>\<open>Memory[Addr + i]\<close> with an \<^verbatim>\<open>int\<close> sum, and whenever
  \<open>a + n\<close> exceeds \<open>0x10000\<close> it reads past the array
  (\<open>PlainMemModel_getBytes_outside\<close>). At \<open>a = 0xFFFF\<close>, \<open>n = 2\<close> on a new flat model the
  second read is at index \<open>0x10000\<close>, where \<^verbatim>\<open>readByte(0x0000)\<close> would have returned 0, as
  the banked model's \<^verbatim>\<open>getBytes\<close> does.
\<close>

theorem plain_getBytes_reads_past_the_array:
  "getBytes (Plain PlainMemModel_new) 0xFFFF 2 = Inl OutOfBounds \<and>
   readByte (Plain PlainMemModel_new) 0xFFFF = Inr 0 \<and>
   readByte (Plain PlainMemModel_new) (0xFFFF + 1) = Inr 0 \<and>
   getBytes (ZX (ZXMemModel_new ''ZXSPECTRUM128'' 8)) 0xFFFF 2 = Inr [0, 0]"
proof -
  have "getBytes (Plain PlainMemModel_new) 0xFFFF 2 = Inl OutOfBounds"
    using PlainMemModel_getBytes_outside [OF plain_new_wf, of "0xFFFF" 2] by simp
  moreover have "readByte (Plain PlainMemModel_new) Addr = Inr 0" for Addr
  proof -
    have "unat Addr < 2 ^ 16" using unsigned_less [of Addr] by simp
    moreover have "uint Addr < 2 ^ 16" using uint_bounded [of Addr] by simp
    ultimately show ?thesis
      by (simp add: PlainMemModel_readByte_def PlainMemModel_new_def PlainMemModel_clear_def)
  qed
  moreover have "getBytes (ZX (ZXMemModel_new ''ZXSPECTRUM128'' 8)) 0xFFFF 2 = Inr [0, 0]"
  proof -
    have w: "zx_wf (ZXMemModel_new ''ZXSPECTRUM128'' 8)" by (simp add: zx_new_wf)
    have two: "[0..<2::nat] = [0, 1]" by (simp add: upt_conv_Cons numeral_2_eq_2)
    have z: "ZXMemory (ZXMemModel_new ''ZXSPECTRUM128'' 8) ! nat (addrToOffset (ZXMemModel_new ''ZXSPECTRUM128'' 8) Addr) = 0" for Addr
    proof -
      have "nat (addrToOffset (ZXMemModel_new ''ZXSPECTRUM128'' 8) Addr)
              < length (ZXMemory (ZXMemModel_new ''ZXSPECTRUM128'' 8))"
        using addrToOffset_bounds [OF w, of Addr] by simp
      then show ?thesis by (simp add: ZXMemModel_new_def)
    qed
    show ?thesis
      by (simp add: ZXMemModel_getBytes_wraps [OF w] two z)
  qed
  ultimately show ?thesis by blast
qed

subsection \<open>Page-addressed writes of the banked model\<close>











lemma length_fold_update [simp]: "length (fold (\<lambda>j xs. xs[g j := h j]) js xs) = length xs"
  by (induction js arbitrary: xs) simp_all














end
